theory Spec2Isabelle
  imports Main "HOL-Library.Multiset"
begin

section \<open>The configuration store (class BotConfig of main.py)\<close>

text \<open>
  The configuration document is a dictionary with six keys.  \<open>DEFAULT_CONFIG\<close> holds all
  six and \<open>save_config\<close> always writes the whole dictionary, so the document is modelled as
  a record with one field per key; identities are Python integers (\<open>int\<close>), the token
  table is a dictionary from token strings to account identities.
\<close>

record config =
  authorized_users :: "int list"
  authorized_chats :: "int list"
  spam_command :: string
  spam_messages :: "string list"
  owner_id :: int
  user_secret_codes :: "string \<rightharpoonup> int"

text \<open>
  \<open>BotConfig.__init__\<close>: the loaded document is taken as it is, and the owner is appended
  to the list of authorized users when the list does not hold it.
\<close>

definition BotConfig_init :: "config \<Rightarrow> config" where
  "BotConfig_init loaded =
     (if owner_id loaded \<notin> set (authorized_users loaded)
      then loaded\<lparr>authorized_users := authorized_users loaded @ [owner_id loaded]\<rparr>
      else loaded)"

text \<open>The setter of \<open>spam_command\<close> puts a slash in front of a command that has none.\<close>

definition set_spam_command :: "config \<Rightarrow> string \<Rightarrow> config" where
  "set_spam_command c command =
     c\<lparr>spam_command := (if take 1 command = ''/'' then command else CHR ''/'' # command)\<rparr>"

definition add_spam_message :: "config \<Rightarrow> string \<Rightarrow> config" where
  "add_spam_message c m =
     (if m \<notin> set (spam_messages c) then c\<lparr>spam_messages := spam_messages c @ [m]\<rparr> else c)"

text \<open>\<open>messages.pop(index)\<close> under the guard \<open>0 <= index < len(messages)\<close>.\<close>

definition remove_spam_message :: "config \<Rightarrow> int \<Rightarrow> config" where
  "remove_spam_message c i =
     (if 0 \<le> i \<and> i < int (length (spam_messages c))
      then c\<lparr>spam_messages := take (nat i) (spam_messages c) @ drop (Suc (nat i)) (spam_messages c)\<rparr>
      else c)"

definition add_authorized_chat :: "config \<Rightarrow> int \<Rightarrow> config" where
  "add_authorized_chat c chat =
     (if chat \<notin> set (authorized_chats c) then c\<lparr>authorized_chats := authorized_chats c @ [chat]\<rparr>
      else c)"

text \<open>\<open>list.remove\<close> deletes the first occurrence only, which is \<open>remove1\<close>.\<close>

definition remove_authorized_chat :: "config \<Rightarrow> int \<Rightarrow> config" where
  "remove_authorized_chat c chat =
     (if chat \<in> set (authorized_chats c) then c\<lparr>authorized_chats := remove1 chat (authorized_chats c)\<rparr>
      else c)"

definition add_authorized_user :: "config \<Rightarrow> int \<Rightarrow> config" where
  "add_authorized_user c u =
     (if u \<notin> set (authorized_users c) \<and> u \<noteq> owner_id c
      then c\<lparr>authorized_users := authorized_users c @ [u]\<rparr>
      else c)"

definition remove_authorized_user :: "config \<Rightarrow> int \<Rightarrow> config" where
  "remove_authorized_user c u =
     (if u \<in> set (authorized_users c) \<and> u \<noteq> owner_id c
      then c\<lparr>authorized_users := remove1 u (authorized_users c)\<rparr>
      else c)"

text \<open>
  \<open>generate_secret_code\<close> draws from \<open>secrets.token_urlsafe(16)\<close> until the draw is not a
  key of the table.  The successive draws are an argument of the model; the loop reads
  them in order.  When every given draw is already a key the loop has not yet left, which
  is the value \<open>None\<close>.
\<close>

fun fresh_code :: "(string \<rightharpoonup> int) \<Rightarrow> string list \<Rightarrow> string option" where
  "fresh_code codes [] = None"
| "fresh_code codes (code # draws) =
     (if codes code \<noteq> None then fresh_code codes draws else Some code)"

definition generate_secret_code :: "config \<Rightarrow> int \<Rightarrow> string list \<Rightarrow> (string \<times> config) option" where
  "generate_secret_code c user_id draws =
     (case fresh_code (user_secret_codes c) draws of
        None \<Rightarrow> None
      | Some code \<Rightarrow> Some (code, c\<lparr>user_secret_codes := (user_secret_codes c)(code \<mapsto> user_id)\<rparr>))"

definition get_user_id_from_code :: "config \<Rightarrow> string \<Rightarrow> int option" where
  "get_user_id_from_code c code = user_secret_codes c code"

definition revoke_secret_code :: "config \<Rightarrow> string \<Rightarrow> bool \<times> config" where
  "revoke_secret_code c code =
     (if user_secret_codes c code \<noteq> None
      then (True, c\<lparr>user_secret_codes := (user_secret_codes c)(code := None)\<rparr>)
      else (False, c))"

definition is_authorized :: "config \<Rightarrow> int \<Rightarrow> bool" where
  "is_authorized c user_id = (user_id \<in> set (authorized_users c))"

definition is_owner :: "config \<Rightarrow> int \<Rightarrow> bool" where
  "is_owner c user_id = (user_id = owner_id c)"

definition is_chat_authorized :: "config \<Rightarrow> int \<Rightarrow> bool" where
  "is_chat_authorized c chat = (chat \<in> set (authorized_chats c))"

text \<open>
  Every mutation the program makes to the store is one of these operations.  A
  \<open>GenerateSecretCode\<close> whose draws are all taken has not reached its assignment, so the
  store is then as it was.
\<close>

datatype config_op =
    AddAuthorizedUser int
  | RemoveAuthorizedUser int
  | AddAuthorizedChat int
  | RemoveAuthorizedChat int
  | GenerateSecretCode int "string list"
  | RevokeSecretCode string
  | AddSpamMessage string
  | RemoveSpamMessage int
  | SetSpamMessages "string list"
  | SetSpamCommand string

fun apply_op :: "config \<Rightarrow> config_op \<Rightarrow> config" where
  "apply_op c (AddAuthorizedUser u) = add_authorized_user c u"
| "apply_op c (RemoveAuthorizedUser u) = remove_authorized_user c u"
| "apply_op c (AddAuthorizedChat chat) = add_authorized_chat c chat"
| "apply_op c (RemoveAuthorizedChat chat) = remove_authorized_chat c chat"
| "apply_op c (GenerateSecretCode u draws) =
     (case generate_secret_code c u draws of None \<Rightarrow> c | Some (code, c') \<Rightarrow> c')"
| "apply_op c (RevokeSecretCode code) = snd (revoke_secret_code c code)"
| "apply_op c (AddSpamMessage m) = add_spam_message c m"
| "apply_op c (RemoveSpamMessage i) = remove_spam_message c i"
| "apply_op c (SetSpamMessages ms) = c\<lparr>spam_messages := ms\<rparr>"
| "apply_op c (SetSpamCommand command) = set_spam_command c command"

definition apply_ops :: "config \<Rightarrow> config_op list \<Rightarrow> config" where
  "apply_ops c ops = foldl apply_op c ops"

text \<open>The document of the examples: owner 1, account 42 authorized, chat 100 authorized.\<close>

definition example_config :: config where
  "example_config =
     \<lparr>authorized_users = [1, 42], authorized_chats = [100], spam_command = ''/s'',
      spam_messages = [''Hi {mention}!'', ''Yo {mention}''], owner_id = 1,
      user_secret_codes = [''ABC123'' \<mapsto> 42]\<rparr>"

text \<open>The document a first start creates: \<open>DEFAULT_CONFIG\<close> with owner 1.\<close>

definition fresh_document :: config where
  "fresh_document =
     \<lparr>authorized_users = [], authorized_chats = [], spam_command = ''/s'',
      spam_messages = [''Hello {mention}! Welcome to the group!''], owner_id = 1,
      user_secret_codes = Map.empty\<rparr>"

section \<open>Python's string functions, as the handler uses them\<close>

text \<open>
  Message text is a list of characters with code points below 256.  On these,
  \<open>str.split()\<close> and \<open>int()\<close> take the characters below for white space, \<open>int()\<close> reads the
  digits \<open>0\<close> to \<open>9\<close> only, and \<open>str.isdigit()\<close> also holds of the three superscript digits
  (code points 178, 179 and 185).
\<close>

definition py_isspace :: "char \<Rightarrow> bool" where
  "py_isspace ch = ((of_char ch :: nat) \<in> {9, 10, 11, 12, 13, 28, 29, 30, 31, 32, 133, 160})"

text \<open>\<open>str.split()\<close> with no argument: the maximal runs of characters that are not white space.\<close>

fun split_from :: "string \<Rightarrow> string \<Rightarrow> string list" where
  "split_from word [] = (if word = [] then [] else [rev word])"
| "split_from word (ch # rest) =
     (if py_isspace ch
      then (if word = [] then split_from [] rest else rev word # split_from [] rest)
      else split_from (ch # word) rest)"

definition py_split :: "string \<Rightarrow> string list" where
  "py_split s = split_from [] s"

definition startswith :: "string \<Rightarrow> string \<Rightarrow> bool" where
  "startswith s p = (take (length p) s = p)"

definition lstrip_slash :: "string \<Rightarrow> string" where
  "lstrip_slash s = dropWhile (\<lambda>ch. ch = CHR ''/'') s"

definition is_decimal :: "char \<Rightarrow> bool" where
  "is_decimal ch = (48 \<le> (of_char ch :: nat) \<and> (of_char ch :: nat) \<le> 57)"

text \<open>
  The digits of \<open>int()\<close>: groups of decimal digits, with single underscores allowed
  between two digits.  \<open>after_digit\<close> says that the character before was a digit.
\<close>

fun int_digits :: "nat \<Rightarrow> bool \<Rightarrow> string \<Rightarrow> nat option" where
  "int_digits acc after_digit [] = (if after_digit then Some acc else None)"
| "int_digits acc after_digit (ch # rest) =
     (if is_decimal ch then int_digits (10 * acc + (of_char ch - 48)) True rest
      else if ch = CHR ''_'' \<and> after_digit then int_digits acc False rest
      else None)"

text \<open>
  \<open>int(s)\<close> for a string without white space: an optional sign and the digits.  \<open>None\<close> is
  the \<open>ValueError\<close>.  (A Python that limits the length of integer strings raises
  \<open>ValueError\<close> beyond 4300 digits where this gives a number above 100; the handler
  returns at the same place in both cases.)
\<close>

definition py_int :: "string \<Rightarrow> int option" where
  "py_int s =
     (case s of
        [] \<Rightarrow> None
      | ch # rest \<Rightarrow>
          if ch = CHR ''+'' then map_option int (int_digits 0 False rest)
          else if ch = CHR ''-'' then map_option (\<lambda>n. - int n) (int_digits 0 False rest)
          else map_option int (int_digits 0 False s))"

definition py_isdigit :: "string \<Rightarrow> bool" where
  "py_isdigit s =
     (s \<noteq> [] \<and> list_all (\<lambda>ch. is_decimal ch \<or> (of_char ch :: nat) \<in> {178, 179, 185}) s)"

text \<open>\<open>str(n)\<close> for an integer.\<close>

fun str_nat :: "nat \<Rightarrow> string" where
  "str_nat n = (if n < 10 then [char_of (48 + n)] else str_nat (n div 10) @ [char_of (48 + n mod 10)])"

definition str_int :: "int \<Rightarrow> string" where
  "str_int i = (if i < 0 then CHR ''-'' # str_nat (nat (- i)) else str_nat (nat i))"

section \<open>The chat platform, as the handler sees it\<close>

text \<open>
  Each call of the client is answered by the platform; the answers are arguments of the
  model.  An answer type has one constructor for each way the source continues: the normal
  return, each exception class that an \<open>except\<close> clause of the source names, and any other
  exception.
\<close>

datatype delete_outcome = Deleted | MessageDeleteForbidden | DeleteError

datatype send_outcome = Sent | FloodWait nat | ChatWriteForbidden | SendError

record user =
  uid :: int
  first_name :: "string option"
  username :: "string option"

text \<open>
  \<open>get_users\<close>: the user, one of \<open>PeerIdInvalid\<close>, \<open>UsernameInvalid\<close> and
  \<open>UsernameNotOccupied\<close> (\<open>NoSuchUser\<close>), or another exception.
\<close>

datatype users_outcome = Found user | NoSuchUser | UsersError

datatype chat_member_status = OWNER | ADMINISTRATOR | MEMBER | RESTRICTED | LEFT | BANNED

datatype member_outcome = Member chat_member_status | ChatAdminRequired | MemberError

datatype chat_type = PRIVATE | BOT | GROUP | SUPERGROUP | CHANNEL

text \<open>
  \<open>reply_text\<close> gives the identity of the posted message, or \<open>None\<close> when the call raises
  (the source awaits it outside every \<open>try\<close>).  \<open>send_message\<close> is asked with the position
  in the pool of the message being sent.  \<open>random_sample k xs\<close> is the result of the
  \<open>k\<close>-th call \<open>random.sample(xs, len(xs))\<close> of one handler run, and \<open>str_format t mention\<close>
  is \<open>t.format(mention=mention)\<close>, \<open>None\<close> when it raises.
\<close>

text \<open>
  The four texts the handler posts with \<open>reply_text\<close>: the help shown in a private chat
  (line 799), \<open>Unauthorized user. Command ignored.\<close> (line 841), \<open>Command sent by a user ID
  that does not match the secret code's assigned user ID. Command ignored.\<close> (line 870) and
  \<open>Unauthorized user (code valid, but linked user ID is not authorized). Command ignored.\<close>
  (line 902).
\<close>

datatype notice = HelpInPrivate | InvalidCodeNotice | SenderMismatchNotice | NotAuthorizedNotice

record platform =
  delete_messages :: "int \<Rightarrow> int \<Rightarrow> delete_outcome"
  reply_text :: "notice \<Rightarrow> int option"
  get_users_by_name :: "string \<Rightarrow> users_outcome"
  get_users_by_id :: "int \<Rightarrow> users_outcome"
  get_chat_member :: "int \<Rightarrow> member_outcome"
  send_message :: "nat \<Rightarrow> send_outcome"
  random_sample :: "nat \<Rightarrow> string list \<Rightarrow> string list"
  str_format :: "string \<Rightarrow> string \<Rightarrow> string option"

record message =
  message_text :: "string option"
  chat_id :: int
  chat_type :: chat_type
  message_id :: int
  from_user :: "int option"

text \<open>
  What a run of the handler does to the chat, in order: deletions, the posted notices with
  the platform's answer, sends with the platform's answer, and the sleeps (\<open>Pause\<close> is the
  sleep of \<open>random.uniform(0.1, 0.5)\<close> seconds after a successful send).
\<close>

datatype event =
    DeleteMessages int int delete_outcome
  | ReplyText notice "int option"
  | Sleep nat
  | Pause
  | SendMessage int string send_outcome

text \<open>
  Where the handler ends: one constructor for each \<open>return\<close> of
  \<open>universal_message_handler\<close>, \<open>Completed n\<close> for the end of the function with
  \<open>success_count = n\<close>, and \<open>Raised\<close> when an exception leaves the function.
\<close>

datatype handler_exit =
    Ignored
  | ChatNotAuthorized
  | HelpShown
  | Incomplete
  | InvalidCode
  | SenderMismatch
  | UserNotAuthorized
  | InvalidQuantity
  | TargetUnresolved
  | TargetNotFound
  | BotNotAdmin
  | NoSpamMessages
  | Completed nat
  | Raised

section \<open>resolve_user_id\<close>

text \<open>
  A string of digits, with an optional minus sign, is converted by \<open>int\<close> (whose
  \<open>ValueError\<close> the outer \<open>except Exception\<close> turns into \<open>None\<close>); any other string is
  looked up without one leading \<open>@\<close>, and every failure of the lookup gives \<open>None\<close>.
\<close>

definition resolve_user_id :: "platform \<Rightarrow> string \<Rightarrow> int option" where
  "resolve_user_id p user_input =
     (if py_isdigit user_input \<or> (take 1 user_input = ''-'' \<and> py_isdigit (drop 1 user_input))
      then py_int user_input
      else (case get_users_by_name p (if take 1 user_input = ''@'' then drop 1 user_input else user_input) of
              Found u \<Rightarrow> Some (uid u)
            | NoSuchUser \<Rightarrow> None
            | UsersError \<Rightarrow> None))"

section \<open>The dispatch: message pool and send loop\<close>

text \<open>
  The pool is built by the loop over \<open>range(quantity)\<close>: at every index that is a multiple
  of the number of messages a new sample of all messages is appended.  \<open>k\<close> counts the
  samples taken so far.  The list is then cut to \<open>quantity\<close> entries.  The handler reaches
  this code with a non-empty list of messages only.
\<close>

fun pool_loop :: "(nat \<Rightarrow> 'a list \<Rightarrow> 'a list) \<Rightarrow> 'a list \<Rightarrow> nat list \<Rightarrow> nat \<Rightarrow> 'a list \<Rightarrow> 'a list" where
  "pool_loop sample messages [] k message_pool = message_pool"
| "pool_loop sample messages (i # indices) k message_pool =
     (if i mod length messages = 0
      then pool_loop sample messages indices (Suc k) (message_pool @ sample k messages)
      else pool_loop sample messages indices k message_pool)"

definition build_message_pool :: "(nat \<Rightarrow> 'a list \<Rightarrow> 'a list) \<Rightarrow> 'a list \<Rightarrow> nat \<Rightarrow> 'a list" where
  "build_message_pool sample messages quantity =
     take quantity (pool_loop sample messages [0..<quantity] 0 [])"

text \<open>
  The send loop over the pool, from position \<open>i\<close> on, with the count of successes so far.
  A template whose formatting raises is passed over by the last \<open>except\<close> clause without a
  send.  \<open>FloodWait\<close> sleeps for the reported time and goes on with the next entry,
  \<open>ChatWriteForbidden\<close> leaves the loop, any other failure goes on with the next entry.
\<close>

fun send_loop :: "platform \<Rightarrow> int \<Rightarrow> string \<Rightarrow> nat \<Rightarrow> string list \<Rightarrow> nat \<Rightarrow> nat \<times> event list" where
  "send_loop p chat mention i [] success_count = (success_count, [])"
| "send_loop p chat mention i (msg_text # pool) success_count =
     (case str_format p msg_text mention of
        None \<Rightarrow> send_loop p chat mention (Suc i) pool success_count
      | Some formatted_msg \<Rightarrow>
          (case send_message p i of
             Sent \<Rightarrow>
               (let (n, es) = send_loop p chat mention (Suc i) pool (Suc success_count)
                in (n, SendMessage chat formatted_msg Sent # Pause # es))
           | FloodWait d \<Rightarrow>
               (let (n, es) = send_loop p chat mention (Suc i) pool success_count
                in (n, SendMessage chat formatted_msg (FloodWait d) # Sleep d # es))
           | ChatWriteForbidden \<Rightarrow>
               (success_count, [SendMessage chat formatted_msg ChatWriteForbidden])
           | SendError \<Rightarrow>
               (let (n, es) = send_loop p chat mention (Suc i) pool success_count
                in (n, SendMessage chat formatted_msg SendError # es))))"

section \<open>universal_message_handler\<close>

text \<open>The mention of the target: a link to the account around its display name.\<close>

definition display_name :: "user \<Rightarrow> string" where
  "display_name u =
     (case first_name u of
        Some n \<Rightarrow> if n \<noteq> [] then n
                  else (case username u of Some h \<Rightarrow> if h \<noteq> [] then h else str_int (uid u)
                        | None \<Rightarrow> str_int (uid u))
      | None \<Rightarrow> (case username u of Some h \<Rightarrow> if h \<noteq> [] then h else str_int (uid u)
                 | None \<Rightarrow> str_int (uid u)))"

definition mention_of :: "user \<Rightarrow> string" where
  "mention_of u =
     ''<a href='' @ [CHR 0x22] @ ''tg://user?id='' @ str_int (uid u) @ [CHR 0x22] @ ''>''
       @ display_name u @ ''</a>''"

definition delete_trigger :: "platform \<Rightarrow> message \<Rightarrow> event" where
  "delete_trigger p m =
     DeleteMessages (chat_id m) (message_id m) (delete_messages p (chat_id m) (message_id m))"

text \<open>
  The block the source repeats for an invalid code, a sender that does not match and an
  account that is not authorized: delete the command message (every failure of the
  deletion is logged and passed over), post the notice, sleep 20 seconds, delete the
  notice.  When posting the notice raises, the exception leaves the handler.
\<close>

definition two_phase_cleanup :: "platform \<Rightarrow> message \<Rightarrow> notice \<Rightarrow> int \<Rightarrow> event list" where
  "two_phase_cleanup p m n unauth_msg =
     [delete_trigger p m, ReplyText n (Some unauth_msg), Sleep 20,
      DeleteMessages (chat_id m) unauth_msg (delete_messages p (chat_id m) unauth_msg)]"

definition reject_with_notice :: "platform \<Rightarrow> message \<Rightarrow> notice \<Rightarrow> handler_exit \<Rightarrow> handler_exit \<times> event list" where
  "reject_with_notice p m n ex =
     (case reply_text p n of
        None \<Rightarrow> (Raised, [delete_trigger p m, ReplyText n None])
      | Some unauth_msg \<Rightarrow> (ex, two_phase_cleanup p m n unauth_msg))"

text \<open>Lines 925 to 1006: quantity, target, the bot's role, pool and sends.\<close>

definition dispatch :: "config \<Rightarrow> platform \<Rightarrow> message \<Rightarrow> string \<Rightarrow> string \<Rightarrow> handler_exit \<times> event list" where
  "dispatch c p m target_input quantity_input =
     (case py_int quantity_input of
        None \<Rightarrow> (InvalidQuantity, [])
      | Some quantity \<Rightarrow>
          if quantity < 1 \<or> quantity > 100 then (InvalidQuantity, [])
          else (case resolve_user_id p target_input of
                  None \<Rightarrow> (TargetUnresolved, [])
                | Some target_id \<Rightarrow>
                    if target_id = 0 then (TargetUnresolved, [])
                    else (case get_users_by_id p target_id of
                            NoSuchUser \<Rightarrow> (TargetNotFound, [])
                          | UsersError \<Rightarrow> (Raised, [])
                          | Found target_user \<Rightarrow>
                              (case get_chat_member p (chat_id m) of
                                 ChatAdminRequired \<Rightarrow> (BotNotAdmin, [])
                               | MemberError \<Rightarrow> (BotNotAdmin, [])
                               | Member st \<Rightarrow>
                                   if st \<noteq> ADMINISTRATOR \<and> st \<noteq> OWNER then (BotNotAdmin, [])
                                   else if spam_messages c = [] then (NoSpamMessages, [])
                                   else (let (n, es) =
                                           send_loop p (chat_id m) (mention_of target_user) 0
                                             (build_message_pool (random_sample p) (spam_messages c) (nat quantity)) 0
                                         in (Completed n, es))))))"

text \<open>
  Lines 829 to 923: the code must resolve to an account (\<open>not authorized_user_id_from_code\<close>
  holds of \<open>None\<close> and of the account 0), a sender that is known must be that account, and
  the account must be authorized; then the command message is deleted and the dispatch
  follows.
\<close>

definition authorize :: "config \<Rightarrow> platform \<Rightarrow> message \<Rightarrow> string \<Rightarrow> string \<Rightarrow> string \<Rightarrow> handler_exit \<times> event list" where
  "authorize c p m potential_code target_input quantity_input =
     (case get_user_id_from_code c potential_code of
        None \<Rightarrow> reject_with_notice p m InvalidCodeNotice InvalidCode
      | Some authorized_user_id_from_code \<Rightarrow>
          if authorized_user_id_from_code = 0 then reject_with_notice p m InvalidCodeNotice InvalidCode
          else if (case from_user m of
                     Some command_sender_user_id \<Rightarrow> command_sender_user_id \<noteq> authorized_user_id_from_code
                   | None \<Rightarrow> False)
          then reject_with_notice p m SenderMismatchNotice SenderMismatch
          else if \<not> is_authorized c authorized_user_id_from_code
          then reject_with_notice p m NotAuthorizedNotice UserNotAuthorized
          else (let (ex, es) = dispatch c p m target_input quantity_input
                in (ex, delete_trigger p m # es)))"

text \<open>Lines 783 to 826: the chat, the private chat, and the four parts of the command.\<close>

definition gate :: "config \<Rightarrow> platform \<Rightarrow> message \<Rightarrow> string \<Rightarrow> handler_exit \<times> event list" where
  "gate c p m txt =
     (if chat_type m \<noteq> PRIVATE \<and> \<not> is_chat_authorized c (chat_id m)
      then (ChatNotAuthorized, [delete_trigger p m])
      else if chat_type m = PRIVATE
      then (case reply_text p HelpInPrivate of
              None \<Rightarrow> (Raised, [ReplyText HelpInPrivate None])
            | Some r \<Rightarrow> (HelpShown, [ReplyText HelpInPrivate (Some r)]))
      else (let parts = py_split txt in
            if length parts < 4 then (Incomplete, [delete_trigger p m])
            else authorize c p m (parts ! 1) (parts ! 2) (parts ! 3)))"

text \<open>
  Lines 769 to 777: a message without text, or whose text does not start with the spam
  command (with or without its slash), is not a command.
\<close>

definition is_spam_command :: "string \<Rightarrow> message \<Rightarrow> bool" where
  "is_spam_command current_spam_command m =
     (case message_text m of
        None \<Rightarrow> False
      | Some txt \<Rightarrow>
          txt \<noteq> [] \<and>
          (startswith txt (CHR ''/'' # lstrip_slash current_spam_command)
           \<or> startswith txt (lstrip_slash current_spam_command)))"

definition universal_message_handler :: "config \<Rightarrow> string \<Rightarrow> platform \<Rightarrow> message \<Rightarrow> handler_exit \<times> event list" where
  "universal_message_handler c current_spam_command p m =
     (if \<not> is_spam_command current_spam_command m then (Ignored, [])
      else gate c p m (the (message_text m)))"

text \<open>What the claims count in a run: the sends, the posted notices, and the deletions.\<close>

fun is_send :: "event \<Rightarrow> bool" where
  "is_send (SendMessage chat txt r) = True"
| "is_send e = False"


fun is_reply :: "event \<Rightarrow> bool" where
  "is_reply (ReplyText n r) = True"
| "is_reply e = False"


text \<open>
  The conditions under which a run passes the checks of the chat and of the number of
  parts and so reaches the lookup of the code at line 829, and the parts of its command.
\<close>

definition command_part :: "message \<Rightarrow> nat \<Rightarrow> string" where
  "command_part m k = py_split (the (message_text m)) ! k"

definition reaches_code_check :: "config \<Rightarrow> string \<Rightarrow> message \<Rightarrow> bool" where
  "reaches_code_check c current_spam_command m =
     (is_spam_command current_spam_command m \<and> chat_type m \<noteq> PRIVATE
      \<and> is_chat_authorized c (chat_id m) \<and> 4 \<le> length (py_split (the (message_text m))))"

text \<open>The platform and the messages of the examples.\<close>

definition example_platform :: platform where
  "example_platform =
     \<lparr>delete_messages = (\<lambda>chat mid. if mid = 7 then MessageDeleteForbidden else Deleted),
      reply_text = (\<lambda>n. Some 900),
      get_users_by_name = (\<lambda>name. if name = ''alice'' then Found \<lparr>uid = 5, first_name = Some ''Alice'', username = Some ''alice''\<rparr> else NoSuchUser),
      get_users_by_id = (\<lambda>i. if i = 5 then Found \<lparr>uid = 5, first_name = Some ''Alice'', username = Some ''alice''\<rparr> else NoSuchUser),
      get_chat_member = (\<lambda>chat. Member ADMINISTRATOR),
      send_message = (\<lambda>i. if i = 1 then FloodWait 30 else Sent),
      random_sample = (\<lambda>k xs. if even k then rev xs else xs),
      str_format = (\<lambda>t mention. Some (t @ mention))\<rparr>"

definition example_message :: "string \<Rightarrow> int \<Rightarrow> int option \<Rightarrow> message" where
  "example_message txt chat sender =
     \<lparr>message_text = Some txt, chat_id = chat, chat_type = SUPERGROUP, message_id = 7, from_user = sender\<rparr>"

section \<open>The token registry\<close>

lemma fresh_code_unbound: "fresh_code codes draws = Some code \<Longrightarrow> codes code = None"
  by (induction draws) (auto split: if_splits)

lemma fresh_code_drawn: "fresh_code codes draws = Some code \<Longrightarrow> code \<in> set draws"
  by (induction draws) (auto split: if_splits)

lemma fresh_code_returns: "d \<in> set draws \<Longrightarrow> codes d = None \<Longrightarrow> \<exists>code. fresh_code codes draws = Some code"
  by (induction draws) auto

lemma generate_secret_code_returns:
  "d \<in> set draws \<Longrightarrow> user_secret_codes c d = None \<Longrightarrow>
   \<exists>code c'. generate_secret_code c u draws = Some (code, c')"
  using fresh_code_returns [of d draws "user_secret_codes c"]
  by (auto simp: generate_secret_code_def)

lemma generate_secret_code_codes:
  assumes "generate_secret_code c u draws = Some (code, c')"
  shows "user_secret_codes c code = None"
    and "user_secret_codes c' = (user_secret_codes c)(code \<mapsto> u)"
    and "authorized_users c' = authorized_users c"
    and "authorized_chats c' = authorized_chats c"
    and "owner_id c' = owner_id c"
    and "spam_messages c' = spam_messages c"
    and "spam_command c' = spam_command c"
  using assms fresh_code_unbound [of "user_secret_codes c" draws]
  by (auto simp: generate_secret_code_def split: option.splits)

lemma apply_op_keeps_code:
  assumes "user_secret_codes c t = Some a" and "op \<noteq> RevokeSecretCode t"
  shows "user_secret_codes (apply_op c op) t = Some a"
proof (cases op)
  case (GenerateSecretCode u draws)
  show ?thesis
  proof (cases "generate_secret_code c u draws")
    case None
    with GenerateSecretCode assms show ?thesis by simp
  next
    case (Some r)
    obtain code c' where r: "r = (code, c')" by (cases r)
    from generate_secret_code_codes(1,2) [OF Some [unfolded r]] assms(1)
    have "code \<noteq> t" and "user_secret_codes c' = (user_secret_codes c)(code \<mapsto> u)" by auto
    with GenerateSecretCode Some r assms(1) show ?thesis by simp
  qed
next
  case (RevokeSecretCode code)
  with assms show ?thesis by (auto simp: revoke_secret_code_def)
qed (use assms in \<open>auto simp: add_authorized_user_def remove_authorized_user_def
      add_authorized_chat_def remove_authorized_chat_def add_spam_message_def
      remove_spam_message_def set_spam_command_def\<close>)

lemma apply_ops_keeps_code:
  "user_secret_codes c t = Some a \<Longrightarrow> RevokeSecretCode t \<notin> set ops \<Longrightarrow>
   user_secret_codes (apply_ops c ops) t = Some a"
  unfolding apply_ops_def
proof (induction ops arbitrary: c)
  case Nil
  then show ?case by simp
next
  case (Cons op ops)
  from Cons.prems have "user_secret_codes (apply_op c op) t = Some a"
    by (intro apply_op_keeps_code) auto
  with Cons show ?case by simp
qed

text \<open>
  C3.  A token returned by \<open>generate_secret_code\<close> for an account resolves to that account
  at once and after every sequence of store operations that does not revoke it (further
  issues, revocations of other tokens, changes of the ledger).  After
  \<open>revoke_secret_code\<close> of a token, the token resolves to nothing.  The call returns
  \<open>True\<close> exactly when the token was a key, and on a token that is not a key it returns
  \<open>False\<close> and leaves the store as it was.
\<close>

theorem token_resolves_until_revoked:
  assumes "generate_secret_code c account draws = Some (t, c1)"
  shows "get_user_id_from_code c1 t = Some account
       \<and> (\<forall>ops. RevokeSecretCode t \<notin> set ops \<longrightarrow>
            get_user_id_from_code (apply_ops c1 ops) t = Some account)
       \<and> (\<forall>ops. get_user_id_from_code (snd (revoke_secret_code (apply_ops c1 ops) t)) t = None)
       \<and> (\<forall>c' t'. fst (revoke_secret_code c' t') = (get_user_id_from_code c' t' \<noteq> None))
       \<and> (\<forall>c' t'. get_user_id_from_code c' t' = None \<longrightarrow> revoke_secret_code c' t' = (False, c'))
       \<and> (\<forall>c' t'. get_user_id_from_code (snd (revoke_secret_code c' t')) t' = None)"
proof -
  have now: "user_secret_codes c1 t = Some account"
    using generate_secret_code_codes(2) [OF assms] by simp
  have later: "\<forall>ops. RevokeSecretCode t \<notin> set ops \<longrightarrow>
      get_user_id_from_code (apply_ops c1 ops) t = Some account"
    using apply_ops_keeps_code [OF now] by (simp add: get_user_id_from_code_def)
  show ?thesis
    using now later by (simp add: get_user_id_from_code_def revoke_secret_code_def)
qed

theorem token_resolves_until_revoked_witness:
  "generate_secret_code example_config 7 [''ABC123'', ''XYZ789''] =
     Some (''XYZ789'', example_config\<lparr>user_secret_codes := [''ABC123'' \<mapsto> 42, ''XYZ789'' \<mapsto> 7]\<rparr>)
   \<and> get_user_id_from_code
       (apply_ops (example_config\<lparr>user_secret_codes := [''ABC123'' \<mapsto> 42, ''XYZ789'' \<mapsto> 7]\<rparr>)
          [RevokeSecretCode ''ABC123'', RemoveAuthorizedUser 42, GenerateSecretCode 42 [''XYZ789'', ''Q'']])
       ''XYZ789'' = Some 7
   \<and> get_user_id_from_code
       (snd (revoke_secret_code
          (apply_ops (example_config\<lparr>user_secret_codes := [''ABC123'' \<mapsto> 42, ''XYZ789'' \<mapsto> 7]\<rparr>) []) ''XYZ789''))
       ''XYZ789'' = None"
proof -
  have g: "generate_secret_code example_config 7 [''ABC123'', ''XYZ789''] =
     Some (''XYZ789'', example_config\<lparr>user_secret_codes := [''ABC123'' \<mapsto> 42, ''XYZ789'' \<mapsto> 7]\<rparr>)"
    by (simp add: generate_secret_code_def example_config_def)
  have r: "RevokeSecretCode ''XYZ789'' \<notin>
      set [RevokeSecretCode ''ABC123'', RemoveAuthorizedUser 42, GenerateSecretCode 42 [''XYZ789'', ''Q'']]"
    by simp
  note T = token_resolves_until_revoked [OF g]
  from T have a: "\<forall>ops. RevokeSecretCode ''XYZ789'' \<notin> set ops \<longrightarrow>
      get_user_id_from_code (apply_ops (example_config\<lparr>user_secret_codes := [''ABC123'' \<mapsto> 42, ''XYZ789'' \<mapsto> 7]\<rparr>) ops) ''XYZ789'' = Some 7"
    by (rule conjunct2 [THEN conjunct1])
  from T have b: "\<forall>ops. get_user_id_from_code (snd (revoke_secret_code
      (apply_ops (example_config\<lparr>user_secret_codes := [''ABC123'' \<mapsto> 42, ''XYZ789'' \<mapsto> 7]\<rparr>) ops) ''XYZ789'')) ''XYZ789'' = None"
    by (rule conjunct2 [THEN conjunct2, THEN conjunct1])
  show ?thesis
    by (intro conjI g a [rule_format, OF r] b [rule_format])
qed

section \<open>The authorization ledger\<close>

lemma apply_op_owner_id: "owner_id (apply_op c op) = owner_id c"
  by (cases op)
     (auto simp: add_authorized_user_def remove_authorized_user_def add_authorized_chat_def
        remove_authorized_chat_def add_spam_message_def remove_spam_message_def
        set_spam_command_def generate_secret_code_def revoke_secret_code_def
        split: option.splits)

lemma remove_authorized_user_count_owner:
  "count_list (authorized_users (remove_authorized_user c u)) (owner_id c) =
   count_list (authorized_users c) (owner_id c)"
proof -
  have "x \<noteq> y \<Longrightarrow> count_list (remove1 x xs) y = count_list xs y" for x y :: int and xs
    by (induction xs) auto
  then show ?thesis by (simp add: remove_authorized_user_def)
qed

lemma apply_op_keeps_owner:
  assumes "owner_id c \<in> set (authorized_users c)"
  shows "owner_id c \<in> set (authorized_users (apply_op c op))"
proof (cases op)
  case (RemoveAuthorizedUser u)
  with assms show ?thesis
    by (simp add: remove_authorized_user_def in_set_remove1)
qed (use assms in \<open>auto simp: add_authorized_user_def add_authorized_chat_def
        remove_authorized_chat_def add_spam_message_def remove_spam_message_def
        set_spam_command_def generate_secret_code_def revoke_secret_code_def
        split: option.splits\<close>)

lemma apply_ops_keeps_owner:
  "owner_id c \<in> set (authorized_users c) \<Longrightarrow>
   owner_id (apply_ops c ops) = owner_id c \<and> owner_id c \<in> set (authorized_users (apply_ops c ops))"
  unfolding apply_ops_def
proof (induction ops arbitrary: c)
  case Nil
  then show ?case by simp
next
  case (Cons op ops)
  have "owner_id (apply_op c op) \<in> set (authorized_users (apply_op c op))"
    using apply_op_keeps_owner [OF Cons.prems] by (simp add: apply_op_owner_id)
  from Cons.IH [OF this] show ?case by (simp add: apply_op_owner_id)
qed

lemma BotConfig_init_owner:
  "owner_id (BotConfig_init loaded) = owner_id loaded"
  "owner_id loaded \<in> set (authorized_users (BotConfig_init loaded))"
  by (simp_all add: BotConfig_init_def)

text \<open>
  C4.  The owner is a member of the authorized accounts after \<open>BotConfig.__init__\<close>, whatever
  document was loaded, and after every finite sequence of store operations that follows
  (additions and removals of accounts among them); the owner identity itself never
  changes.  \<open>remove_authorized_user\<close> leaves the number of occurrences of the owner in the
  list as it was, for every argument.
\<close>

theorem owner_always_authorized:
  "is_authorized (BotConfig_init loaded) (owner_id loaded)
   \<and> owner_id (apply_ops (BotConfig_init loaded) ops) = owner_id loaded
   \<and> is_authorized (apply_ops (BotConfig_init loaded) ops) (owner_id loaded)
   \<and> count_list (authorized_users (remove_authorized_user c u)) (owner_id c) =
       count_list (authorized_users c) (owner_id c)"
  using apply_ops_keeps_owner [of "BotConfig_init loaded" ops]
  by (simp add: BotConfig_init_owner is_authorized_def remove_authorized_user_count_owner)

theorem owner_always_authorized_witness:
  "authorized_users (BotConfig_init fresh_document) = [1]
   \<and> authorized_users (apply_ops (BotConfig_init fresh_document)
        [AddAuthorizedUser 42, RemoveAuthorizedUser 1, AddAuthorizedUser 1, RemoveAuthorizedUser 42,
         RemoveAuthorizedUser 1]) = [1]
   \<and> is_authorized (apply_ops (BotConfig_init fresh_document)
        [AddAuthorizedUser 42, RemoveAuthorizedUser 1, AddAuthorizedUser 1, RemoveAuthorizedUser 42,
         RemoveAuthorizedUser 1]) (owner_id fresh_document)"
proof -
  have a: "authorized_users (BotConfig_init fresh_document) = [1]"
    by (simp add: BotConfig_init_def fresh_document_def)
  have b: "authorized_users (apply_ops (BotConfig_init fresh_document)
        [AddAuthorizedUser 42, RemoveAuthorizedUser 1, AddAuthorizedUser 1, RemoveAuthorizedUser 42,
         RemoveAuthorizedUser 1]) = [1]"
    by (simp add: apply_ops_def BotConfig_init_def fresh_document_def add_authorized_user_def
        remove_authorized_user_def)
  show ?thesis
    by (intro conjI a b owner_always_authorized [THEN conjunct2, THEN conjunct2, THEN conjunct1])
qed

section \<open>Issuing a token: what changes\<close>

lemma generate_secret_code_frame_facts:
  assumes "generate_secret_code c account draws = Some (t, c')"
  shows "t \<in> set draws
       \<and> get_user_id_from_code c t = None
       \<and> get_user_id_from_code c' t = Some account
       \<and> (\<forall>k. k \<noteq> t \<longrightarrow> get_user_id_from_code c' k = get_user_id_from_code c k)
       \<and> dom (user_secret_codes c') = insert t (dom (user_secret_codes c))
       \<and> authorized_users c' = authorized_users c \<and> authorized_chats c' = authorized_chats c
       \<and> owner_id c' = owner_id c \<and> spam_messages c' = spam_messages c
       \<and> spam_command c' = spam_command c"
proof -
  note g = generate_secret_code_codes [OF assms]
  have "t \<in> set draws"
    using assms fresh_code_drawn [of "user_secret_codes c" draws t]
    by (auto simp: generate_secret_code_def split: option.splits)
  with g show ?thesis
    by (simp add: get_user_id_from_code_def)
qed

lemma generate_secret_code_second:
  assumes "generate_secret_code c account draws = Some (t, c')"
    and "generate_secret_code c' account draws2 = Some (t2, c2)"
  shows "t2 \<noteq> t \<and> get_user_id_from_code c2 t = Some account
       \<and> get_user_id_from_code c2 t2 = Some account"
proof -
  note g = generate_secret_code_codes [OF assms(1)]
  note h = generate_secret_code_codes [OF assms(2)]
  from h(1) g(2) have "t2 \<noteq> t" by auto
  with h(2) g(2) show ?thesis by (simp add: get_user_id_from_code_def)
qed

text \<open>
  C10.  Whenever one of the draws is not yet a key of the table, \<open>generate_secret_code\<close>
  returns, and the token \<open>t\<close> it returns for the account is one of the draws and is the one
  binding the call adds: \<open>t\<close> was not a key before, the keys afterwards are the old keys
  and \<open>t\<close>, \<open>t\<close> resolves to the account, every other token resolves as before, and no
  other field of the store changes.  A second issue for the same account, again with a
  draw that is not yet a key, returns as well, with a different token, and both tokens
  then resolve to the account.
\<close>

theorem generate_secret_code_frame:
  assumes "d \<in> set draws" and "user_secret_codes c d = None"
  shows "\<exists>t c'. generate_secret_code c account draws = Some (t, c')
       \<and> (t \<in> set draws
       \<and> get_user_id_from_code c t = None
       \<and> get_user_id_from_code c' t = Some account
       \<and> (\<forall>k. k \<noteq> t \<longrightarrow> get_user_id_from_code c' k = get_user_id_from_code c k)
       \<and> dom (user_secret_codes c') = insert t (dom (user_secret_codes c))
       \<and> authorized_users c' = authorized_users c \<and> authorized_chats c' = authorized_chats c
       \<and> owner_id c' = owner_id c \<and> spam_messages c' = spam_messages c
       \<and> spam_command c' = spam_command c)
       \<and> (\<forall>draws2 d2. d2 \<in> set draws2 \<and> user_secret_codes c' d2 = None \<longrightarrow>
            (\<exists>t2 c2. generate_secret_code c' account draws2 = Some (t2, c2)
               \<and> t2 \<noteq> t \<and> get_user_id_from_code c2 t = Some account
               \<and> get_user_id_from_code c2 t2 = Some account))"
proof -
  from generate_secret_code_returns [OF assms, of account]
  obtain t c' where g: "generate_secret_code c account draws = Some (t, c')" by blast
  have second: "\<forall>draws2 d2. d2 \<in> set draws2 \<and> user_secret_codes c' d2 = None \<longrightarrow>
            (\<exists>t2 c2. generate_secret_code c' account draws2 = Some (t2, c2)
               \<and> t2 \<noteq> t \<and> get_user_id_from_code c2 t = Some account
               \<and> get_user_id_from_code c2 t2 = Some account)"
  proof (intro allI impI)
    fix draws2 d2
    assume a: "d2 \<in> set draws2 \<and> user_secret_codes c' d2 = None"
    from a have a1: "d2 \<in> set draws2" and a2: "user_secret_codes c' d2 = None" by simp_all
    from generate_secret_code_returns [OF a1 a2, of account]
    obtain t2 c2 where h: "generate_secret_code c' account draws2 = Some (t2, c2)" by blast
    note s = generate_secret_code_second [OF g h]
    show "\<exists>t2 c2. generate_secret_code c' account draws2 = Some (t2, c2)
               \<and> t2 \<noteq> t \<and> get_user_id_from_code c2 t = Some account
               \<and> get_user_id_from_code c2 t2 = Some account"
      by (rule exI [of _ t2], rule exI [of _ c2], rule conjI [OF h s])
  qed
  show ?thesis
    by (rule exI [of _ t], rule exI [of _ c'],
        rule conjI [OF g conjI [OF generate_secret_code_frame_facts [OF g] second]])
qed

text \<open>
  The first draw collides with the key \<open>ABC123\<close>, the second is fresh; the old binding
  stays, and a second issue for account 42 returns a further token.
\<close>

theorem generate_secret_code_frame_witness:
  "generate_secret_code example_config 42 [''ABC123'', ''T1''] =
      Some (''T1'', example_config\<lparr>user_secret_codes := [''ABC123'' \<mapsto> 42, ''T1'' \<mapsto> 42]\<rparr>)
   \<and> (\<exists>t c'. generate_secret_code example_config 42 [''ABC123'', ''T1''] = Some (t, c')
         \<and> get_user_id_from_code example_config t = None
         \<and> get_user_id_from_code c' t = Some 42
         \<and> get_user_id_from_code c' ''ABC123'' = Some 42
         \<and> (\<exists>t2 c2. generate_secret_code c' 42 [''ABC123'', ''T2''] = Some (t2, c2)
               \<and> t2 \<noteq> t \<and> get_user_id_from_code c2 t = Some 42
               \<and> get_user_id_from_code c2 t2 = Some 42))"
proof -
  have g: "generate_secret_code example_config 42 [''ABC123'', ''T1''] =
      Some (''T1'', example_config\<lparr>user_secret_codes := [''ABC123'' \<mapsto> 42, ''T1'' \<mapsto> 42]\<rparr>)"
    by (simp add: generate_secret_code_def example_config_def)
  have d: "''T1'' \<in> set [''ABC123'', ''T1'']" by simp
  have f: "user_secret_codes example_config ''T1'' = None" by (simp add: example_config_def)
  have e: "get_user_id_from_code example_config ''ABC123'' = Some 42"
    by (simp add: get_user_id_from_code_def example_config_def)
  have inner: "\<exists>t c'. generate_secret_code example_config 42 [''ABC123'', ''T1''] = Some (t, c')
         \<and> get_user_id_from_code example_config t = None
         \<and> get_user_id_from_code c' t = Some 42
         \<and> get_user_id_from_code c' ''ABC123'' = Some 42
         \<and> (\<exists>t2 c2. generate_secret_code c' 42 [''ABC123'', ''T2''] = Some (t2, c2)
               \<and> t2 \<noteq> t \<and> get_user_id_from_code c2 t = Some 42
               \<and> get_user_id_from_code c2 t2 = Some 42)"
    using generate_secret_code_frame [OF d f, of 42]
  proof (elim exE conjE)
    fix t c'
    assume r: "generate_secret_code example_config 42 [''ABC123'', ''T1''] = Some (t, c')"
      and u: "get_user_id_from_code example_config t = None"
      and a: "get_user_id_from_code c' t = Some 42"
      and k: "\<forall>k. k \<noteq> t \<longrightarrow> get_user_id_from_code c' k = get_user_id_from_code example_config k"
      and s: "\<forall>draws2 d2. d2 \<in> set draws2 \<and> user_secret_codes c' d2 = None \<longrightarrow>
            (\<exists>t2 c2. generate_secret_code c' 42 draws2 = Some (t2, c2)
               \<and> t2 \<noteq> t \<and> get_user_id_from_code c2 t = Some 42
               \<and> get_user_id_from_code c2 t2 = Some 42)"
    from u e have n: "''ABC123'' \<noteq> t" by auto
    from k [rule_format, OF n] e have old: "get_user_id_from_code c' ''ABC123'' = Some 42" by simp
    note eq = trans [OF r [symmetric] g]
    have c': "c' = example_config\<lparr>user_secret_codes := [''ABC123'' \<mapsto> 42, ''T1'' \<mapsto> 42]\<rparr>"
      by (rule conjunct2 [OF iffD1 [OF prod.inject iffD1 [OF option.inject eq]]])
    have fresh: "''T2'' \<in> set [''ABC123'', ''T2''] \<and> user_secret_codes c' ''T2'' = None"
      unfolding c' by (simp add: example_config_def)
    from s [rule_format, OF fresh]
    have second: "\<exists>t2 c2. generate_secret_code c' 42 [''ABC123'', ''T2''] = Some (t2, c2)
               \<and> t2 \<noteq> t \<and> get_user_id_from_code c2 t = Some 42
               \<and> get_user_id_from_code c2 t2 = Some 42" .
    show ?thesis
      by (rule exI [of _ t], rule exI [of _ c'], intro conjI r u a old second)
  qed
  show ?thesis by (rule conjI [OF g inner])
qed

section \<open>The message pool\<close>

lemma pool_loop_concat:
  "pool_loop sample messages indices k pool =
   pool @ concat (map (\<lambda>j. sample j messages)
      [k ..< k + length (filter (\<lambda>i. i mod length messages = 0) indices)])"
proof (induction indices arbitrary: k pool)
  case Nil
  then show ?case by simp
next
  case (Cons i indices)
  show ?case
  proof (cases "i mod length messages = 0")
    case True
    have "[k ..< k + Suc n] = k # [Suc k ..< Suc k + n]" for n
      by (simp add: upt_conv_Cons)
    with True Cons.IH [of "Suc k"] show ?thesis by simp
  next
    case False
    with Cons.IH [of k] show ?thesis by simp
  qed
qed

lemma samples_cover:
  assumes "0 < n"
  shows "q \<le> n * length (filter (\<lambda>i. i mod n = 0) [0..<q])"
proof (induction q)
  case 0
  then show ?case by simp
next
  case (Suc q)
  let ?c = "length (filter (\<lambda>i. i mod n = 0) [0..<q])"
  show ?case
  proof (cases "q mod n = 0")
    case True
    with Suc assms show ?thesis by simp
  next
    case False
    have "n * ?c \<noteq> q"
    proof
      assume "n * ?c = q"
      then have "q mod n = 0" by (metis mod_mult_self1_is_0)
      with False show False by simp
    qed
    with Suc False show ?thesis by simp
  qed
qed

lemma concat_block:
  assumes "\<forall>xs \<in> set xss. length xs = n" and "j < length xss"
  shows "take n (drop (j * n) (concat xss)) = xss ! j"
  using assms
proof (induction xss arbitrary: j)
  case Nil
  then show ?case by simp
next
  case (Cons xs xss)
  show ?case
  proof (cases j)
    case 0
    with Cons.prems show ?thesis by simp
  next
    case (Suc j')
    with Cons.prems have "take n (drop (j' * n) (concat xss)) = xss ! j'"
      by (intro Cons.IH) auto
    with Suc Cons.prems show ?thesis by (simp add: add.commute)
  qed
qed

lemma length_concat_equal:
  "\<forall>xs \<in> set xss. length xs = n \<Longrightarrow> length (concat xss) = length xss * n"
  by (induction xss) auto

lemma build_message_pool_blocks:
  assumes perm: "\<forall>k. mset (sample k messages) = mset messages" and ne: "messages \<noteq> []"
  shows "length (build_message_pool sample messages q) = q"
    and "(j + 1) * length messages \<le> q \<Longrightarrow>
         take (length messages) (drop (j * length messages) (build_message_pool sample messages q))
           = sample j messages"
proof -
  let ?n = "length messages"
  let ?c = "length (filter (\<lambda>i. i mod ?n = 0) [0..<q])"
  let ?xss = "map (\<lambda>j. sample j messages) [0..<?c]"
  have n: "0 < ?n" using ne by simp
  have len: "\<forall>xs \<in> set ?xss. length xs = ?n"
    using perm by (auto dest: mset_eq_length)
  have pool: "build_message_pool sample messages q = take q (concat ?xss)"
    by (simp add: build_message_pool_def pool_loop_concat)
  have total: "length (concat ?xss) = ?c * ?n"
    using length_concat_equal [OF len] by simp
  have cover: "q \<le> ?n * ?c" by (rule samples_cover [OF n])
  show "length (build_message_pool sample messages q) = q"
    using pool total cover by (simp add: mult.commute)
  show "take ?n (drop (j * ?n) (build_message_pool sample messages q)) = sample j messages"
    if block: "(j + 1) * ?n \<le> q"
  proof -
    from block cover have "(j + 1) * ?n \<le> ?c * ?n" by (simp add: mult.commute)
    with n have "j + 1 \<le> ?c" unfolding mult_le_cancel2 by simp
    then have j: "j < ?c" by simp
    have "take ?n (drop (j * ?n) (take q (concat ?xss))) = take ?n (drop (j * ?n) (concat ?xss))"
      using block by (simp add: drop_take min_def)
    also have "\<dots> = ?xss ! j"
      using concat_block [OF len, of j] j by simp
    also have "\<dots> = sample j messages" using j by simp
    finally show ?thesis by (simp add: pool)
  qed
qed

text \<open>
  C5.  For every quantity \<open>q\<close> (the handler passes 1 to 100) and every non-empty list of
  \<open>n\<close> messages, when each call of \<open>random.sample\<close> returns the messages in some order,
  the pool has exactly \<open>q\<close> entries, and every block of \<open>n\<close> positions that starts at a
  multiple \<open>j * n\<close> of \<open>n\<close> and ends within the pool is the \<open>j\<close>-th sample: it holds every
  message exactly as often as the list of messages does, so each of the \<open>n\<close> entries once.
\<close>

theorem message_pool_full_cycles:
  assumes "\<forall>k. mset (sample k messages) = mset messages" and "messages \<noteq> []"
  shows "length (build_message_pool sample messages q) = q
       \<and> (\<forall>j. (j + 1) * length messages \<le> q \<longrightarrow>
            take (length messages) (drop (j * length messages) (build_message_pool sample messages q))
              = sample j messages
          \<and> mset (take (length messages) (drop (j * length messages) (build_message_pool sample messages q)))
              = mset messages)"
  using build_message_pool_blocks [of sample messages, OF assms] assms(1) by simp

theorem message_pool_full_cycles_witness:
  "build_message_pool (\<lambda>k xs. if even k then rev xs else xs) [''Hi {mention}!'', ''Yo {mention}''] 3
     = [''Yo {mention}'', ''Hi {mention}!'', ''Hi {mention}!'']
   \<and> length (build_message_pool (\<lambda>k xs. if even k then rev xs else xs) [''Hi {mention}!'', ''Yo {mention}''] 3) = 3
   \<and> mset (take 2 (drop 0 (build_message_pool (\<lambda>k xs. if even k then rev xs else xs)
        [''Hi {mention}!'', ''Yo {mention}''] 3))) = mset [''Hi {mention}!'', ''Yo {mention}'']"
proof -
  let ?sample = "\<lambda>k xs. if even k then rev xs else (xs :: string list)"
  let ?ms = "[''Hi {mention}!'', ''Yo {mention}'']"
  have perm: "\<forall>k. mset (?sample k ?ms) = mset ?ms" by simp
  have ne: "?ms \<noteq> []" by simp
  have v: "build_message_pool ?sample ?ms 3 = [''Yo {mention}'', ''Hi {mention}!'', ''Hi {mention}!'']"
    by (simp add: build_message_pool_def upt_rec numeral_3_eq_3)
  note T = message_pool_full_cycles [of ?sample ?ms 3, OF perm ne]
  have l: "length (build_message_pool ?sample ?ms 3) = 3" using T by (rule conjunct1)
  have "(0 + 1) * length ?ms \<le> (3::nat)" by simp
  with T have "mset (take (length ?ms) (drop (0 * length ?ms) (build_message_pool ?sample ?ms 3))) = mset ?ms"
    by blast
  then have b: "mset (take 2 (drop 0 (build_message_pool ?sample ?ms 3))) = mset ?ms"
    by (simp add: numeral_2_eq_2)
  show ?thesis by (intro conjI v l b)
qed

section \<open>The send loop\<close>











section \<open>The stages of the handler\<close>

lemma handler_chat_not_authorized:
  "is_spam_command cmd m \<Longrightarrow> chat_type m \<noteq> PRIVATE \<Longrightarrow> \<not> is_chat_authorized c (chat_id m) \<Longrightarrow>
   universal_message_handler c cmd p m = (ChatNotAuthorized, [delete_trigger p m])"
  by (simp add: universal_message_handler_def gate_def)

lemma handler_at_code_check:
  "reaches_code_check c cmd m \<Longrightarrow>
   universal_message_handler c cmd p m =
     authorize c p m (command_part m 1) (command_part m 2) (command_part m 3)"
  by (simp add: reaches_code_check_def universal_message_handler_def gate_def command_part_def
      Let_def)

lemma authorize_invalid_code:
  "get_user_id_from_code c code = None \<or> get_user_id_from_code c code = Some 0 \<Longrightarrow>
   authorize c p m code target quantity = reject_with_notice p m InvalidCodeNotice InvalidCode"
  by (auto simp: authorize_def)

lemma authorize_sender_mismatch:
  "get_user_id_from_code c code = Some a \<Longrightarrow> a \<noteq> 0 \<Longrightarrow> from_user m = Some s \<Longrightarrow> s \<noteq> a \<Longrightarrow>
   authorize c p m code target quantity = reject_with_notice p m SenderMismatchNotice SenderMismatch"
  by (simp add: authorize_def)

lemma authorize_user_not_authorized:
  "get_user_id_from_code c code = Some a \<Longrightarrow> a \<noteq> 0 \<Longrightarrow>
   from_user m = None \<or> from_user m = Some a \<Longrightarrow> \<not> is_authorized c a \<Longrightarrow>
   authorize c p m code target quantity = reject_with_notice p m NotAuthorizedNotice UserNotAuthorized"
  by (auto simp: authorize_def)

lemma authorize_accepted:
  "get_user_id_from_code c code = Some a \<Longrightarrow> a \<noteq> 0 \<Longrightarrow>
   from_user m = None \<or> from_user m = Some a \<Longrightarrow> is_authorized c a \<Longrightarrow>
   authorize c p m code target quantity =
     (fst (dispatch c p m target quantity), delete_trigger p m # snd (dispatch c p m target quantity))"
  by (auto simp: authorize_def split: prod.splits)

lemma reject_with_notice_counts:
  "filter is_send (snd (reject_with_notice p m n ex)) = []"
  "length (filter is_reply (snd (reject_with_notice p m n ex))) = 1"
  "hd (snd (reject_with_notice p m n ex)) = delete_trigger p m"
  by (simp_all add: reject_with_notice_def two_phase_cleanup_def delete_trigger_def
      split: option.splits)

lemma dispatch_invalid_quantity:
  "py_int quantity = None \<or> (\<exists>q. py_int quantity = Some q \<and> (q < 1 \<or> 100 < q)) \<Longrightarrow>
   dispatch c p m target quantity = (InvalidQuantity, [])"
  by (auto simp: dispatch_def)

lemma authorize_sends:
  assumes "filter is_send (snd (authorize c p m code target quantity)) \<noteq> []"
  shows "\<exists>a. get_user_id_from_code c code = Some a \<and> a \<noteq> 0
           \<and> (from_user m = None \<or> from_user m = Some a) \<and> is_authorized c a"
proof (cases "get_user_id_from_code c code")
  case None
  with assms show ?thesis
    by (simp add: authorize_invalid_code reject_with_notice_counts)
next
  case (Some a)
  show ?thesis
  proof (cases "a = 0")
    case True
    with Some assms show ?thesis
      by (simp add: authorize_invalid_code reject_with_notice_counts)
  next
    case False
    show ?thesis
    proof (cases "from_user m = None \<or> from_user m = Some a")
      case True
      show ?thesis
      proof (cases "is_authorized c a")
        case True
        with Some \<open>a \<noteq> 0\<close> \<open>from_user m = None \<or> from_user m = Some a\<close> show ?thesis by blast
      next
        case False
        with Some \<open>a \<noteq> 0\<close> True assms show ?thesis
          by (simp add: authorize_user_not_authorized [of c code a m] reject_with_notice_counts)
      qed
    next
      case no: False
      then obtain s where "from_user m = Some s" "s \<noteq> a" by (cases "from_user m") auto
      with Some False assms show ?thesis
        by (simp add: authorize_sender_mismatch [of c code a m s] reject_with_notice_counts)
    qed
  qed
qed

lemma handler_sends:
  assumes "filter is_send (snd (universal_message_handler c cmd p m)) \<noteq> []"
  shows "reaches_code_check c cmd m
       \<and> (\<exists>a. get_user_id_from_code c (command_part m 1) = Some a \<and> a \<noteq> 0
           \<and> (from_user m = None \<or> from_user m = Some a) \<and> is_authorized c a)"
proof -
  have r: "reaches_code_check c cmd m"
  proof (rule ccontr)
    assume "\<not> reaches_code_check c cmd m"
    then have "filter is_send (snd (universal_message_handler c cmd p m)) = []"
      by (auto simp: reaches_code_check_def universal_message_handler_def gate_def Let_def
          delete_trigger_def split: option.splits)
    with assms show False by simp
  qed
  with assms authorize_sends [of c p m "command_part m 1" "command_part m 2" "command_part m 3"]
  show ?thesis by (simp add: handler_at_code_check)
qed

section \<open>C2 and C7: the chat check and the quantity\<close>

lemmas example_defs =
  example_message_def example_platform_def example_config_def

lemmas text_defs =
  is_spam_command_def startswith_def lstrip_slash_def py_split_def py_isspace_def
  command_part_def reaches_code_check_def is_chat_authorized_def is_authorized_def
  get_user_id_from_code_def

text \<open>
  C2.  For every command message in a chat that is not private and not in the authorized
  chats, and for every platform, the handler returns at the chat check: the run consists of
  the one attempt to delete the command message, whatever the platform answers to it
  (\<open>MessageDeleteForbidden\<close> included: the handler still returns normally), so no message
  is sent and no notice is posted.
\<close>

theorem unauthorized_chat_only_deletes:
  assumes "is_spam_command cmd m" and "chat_type m \<noteq> PRIVATE"
    and "\<not> is_chat_authorized c (chat_id m)"
  shows "universal_message_handler c cmd p m =
           (ChatNotAuthorized,
            [DeleteMessages (chat_id m) (message_id m) (delete_messages p (chat_id m) (message_id m))])
       \<and> filter is_send (snd (universal_message_handler c cmd p m)) = []
       \<and> filter is_reply (snd (universal_message_handler c cmd p m)) = []"
  using handler_chat_not_authorized [OF assms, of p] by (simp add: delete_trigger_def)

text \<open>A command in chat 101, which is not authorized, where the platform forbids the deletion.\<close>

theorem unauthorized_chat_only_deletes_witness:
  "universal_message_handler example_config ''/s'' example_platform
      (example_message ''/s ABC123 @alice 3'' 101 (Some 42))
     = (ChatNotAuthorized, [DeleteMessages 101 7 MessageDeleteForbidden])"
proof -
  let ?m = "example_message ''/s ABC123 @alice 3'' 101 (Some 42)"
  have 1: "is_spam_command ''/s'' ?m" by (simp add: text_defs example_defs)
  have 2: "chat_type ?m \<noteq> PRIVATE" by (simp add: example_defs)
  have 3: "\<not> is_chat_authorized example_config (chat_id ?m)" by (simp add: text_defs example_defs)
  from unauthorized_chat_only_deletes [OF 1 2 3, of example_platform]
  show ?thesis by (simp add: example_defs)
qed

text \<open>
  C7.  For every command that passes all authorization checks (it reaches the lookup of
  the code, the code is bound to an account, the sender is anonymous or is that account,
  and the account is authorized): when the fourth part is not accepted by \<open>int\<close>, or is an
  integer below 1 or above 100, the run consists of the deletion of the command message
  alone.  Nothing is sent and no notice is posted.
\<close>

theorem invalid_quantity_silent:
  assumes "reaches_code_check c cmd m"
    and "get_user_id_from_code c (command_part m 1) = Some a" and "a \<noteq> 0"
    and "from_user m = None \<or> from_user m = Some a"
    and "is_authorized c a"
    and "py_int (command_part m 3) = None
         \<or> (\<exists>q. py_int (command_part m 3) = Some q \<and> (q < 1 \<or> 100 < q))"
  shows "universal_message_handler c cmd p m = (InvalidQuantity, [delete_trigger p m])
       \<and> filter is_send (snd (universal_message_handler c cmd p m)) = []
       \<and> filter is_reply (snd (universal_message_handler c cmd p m)) = []"
  using handler_at_code_check [OF assms(1), of p]
    authorize_accepted [OF assms(2-5), of p "command_part m 2" "command_part m 3"]
    dispatch_invalid_quantity [OF assms(6), of c p m "command_part m 2"]
  by (simp add: delete_trigger_def)

text \<open>The quantities \<open>0\<close>, \<open>101\<close> and \<open>many\<close>.\<close>

theorem invalid_quantity_silent_witness:
  "universal_message_handler example_config ''/s'' example_platform
      (example_message ''/s ABC123 @alice 0'' 100 (Some 42))
     = (InvalidQuantity, [DeleteMessages 100 7 MessageDeleteForbidden])
   \<and> universal_message_handler example_config ''/s'' example_platform
      (example_message ''/s ABC123 @alice 101'' 100 None)
     = (InvalidQuantity, [DeleteMessages 100 7 MessageDeleteForbidden])
   \<and> universal_message_handler example_config ''/s'' example_platform
      (example_message ''/s ABC123 @alice many'' 100 (Some 42))
     = (InvalidQuantity, [DeleteMessages 100 7 MessageDeleteForbidden])"
proof -
  let ?m0 = "example_message ''/s ABC123 @alice 0'' 100 (Some 42)"
  let ?m1 = "example_message ''/s ABC123 @alice 101'' 100 None"
  let ?m2 = "example_message ''/s ABC123 @alice many'' 100 (Some 42)"
  have auth: "is_authorized example_config 42" by (simp add: text_defs example_defs)
  have a: "universal_message_handler example_config ''/s'' example_platform ?m0
     = (InvalidQuantity, [DeleteMessages 100 7 MessageDeleteForbidden])"
  proof -
    have 1: "reaches_code_check example_config ''/s'' ?m0" by (simp add: text_defs example_defs)
    have 2: "get_user_id_from_code example_config (command_part ?m0 1) = Some 42"
      by (simp add: text_defs example_defs)
    have 3: "from_user ?m0 = None \<or> from_user ?m0 = Some 42" by (simp add: example_defs)
    have 4: "py_int (command_part ?m0 3) = None
         \<or> (\<exists>q. py_int (command_part ?m0 3) = Some q \<and> (q < 1 \<or> 100 < q))"
      by (simp add: text_defs example_defs py_int_def is_decimal_def)
    from invalid_quantity_silent [OF 1 2 _ 3 auth 4, of example_platform]
    show ?thesis by (simp add: delete_trigger_def example_defs)
  qed
  have b: "universal_message_handler example_config ''/s'' example_platform ?m1
     = (InvalidQuantity, [DeleteMessages 100 7 MessageDeleteForbidden])"
  proof -
    have 1: "reaches_code_check example_config ''/s'' ?m1" by (simp add: text_defs example_defs)
    have 2: "get_user_id_from_code example_config (command_part ?m1 1) = Some 42"
      by (simp add: text_defs example_defs)
    have 3: "from_user ?m1 = None \<or> from_user ?m1 = Some 42" by (simp add: example_defs)
    have 4: "py_int (command_part ?m1 3) = None
         \<or> (\<exists>q. py_int (command_part ?m1 3) = Some q \<and> (q < 1 \<or> 100 < q))"
      by (simp add: text_defs example_defs py_int_def is_decimal_def)
    from invalid_quantity_silent [OF 1 2 _ 3 auth 4, of example_platform]
    show ?thesis by (simp add: delete_trigger_def example_defs)
  qed
  have c: "universal_message_handler example_config ''/s'' example_platform ?m2
     = (InvalidQuantity, [DeleteMessages 100 7 MessageDeleteForbidden])"
  proof -
    have 1: "reaches_code_check example_config ''/s'' ?m2" by (simp add: text_defs example_defs)
    have 2: "get_user_id_from_code example_config (command_part ?m2 1) = Some 42"
      by (simp add: text_defs example_defs)
    have 3: "from_user ?m2 = None \<or> from_user ?m2 = Some 42" by (simp add: example_defs)
    have 4: "py_int (command_part ?m2 3) = None
         \<or> (\<exists>q. py_int (command_part ?m2 3) = Some q \<and> (q < 1 \<or> 100 < q))"
      by (simp add: text_defs example_defs py_int_def is_decimal_def)
    from invalid_quantity_silent [OF 1 2 _ 3 auth 4, of example_platform]
    show ?thesis by (simp add: delete_trigger_def example_defs)
  qed
  show ?thesis by (intro conjI a b c)
qed

lemma reject_with_notice_cases:
  "reject_with_notice p m n ex =
     (case reply_text p n of
        None \<Rightarrow> (Raised, [delete_trigger p m, ReplyText n None])
      | Some w \<Rightarrow>
          (ex, [delete_trigger p m, ReplyText n (Some w), Sleep 20,
                DeleteMessages (chat_id m) w (delete_messages p (chat_id m) w)]))"
  by (simp add: reject_with_notice_def two_phase_cleanup_def split: option.splits)

section \<open>C6: a code that is not in the table\<close>

text \<open>
  As stated, C6 fails: in the authorized chat 100 the command \<open>/s NOPE @alice\<close> has a second
  part that is not a key of the table, but it has three parts only, so the handler returns
  at the check of the number of parts after deleting the command message; no notice is
  posted.
\<close>

theorem unknown_code_counterexample:
  "is_spam_command ''/s'' (example_message ''/s NOPE @alice'' 100 (Some 42))
   \<and> is_chat_authorized example_config 100
   \<and> py_split ''/s NOPE @alice'' ! 1 = ''NOPE''
   \<and> get_user_id_from_code example_config ''NOPE'' = None
   \<and> universal_message_handler example_config ''/s'' example_platform
        (example_message ''/s NOPE @alice'' 100 (Some 42))
      = (Incomplete, [DeleteMessages 100 7 MessageDeleteForbidden])"
  by (simp add: text_defs example_defs universal_message_handler_def gate_def delete_trigger_def)

text \<open>
  C6, amended.  For every command message of at least four parts in a chat that is not
  private and is authorized, whose second part is not a key of the table: the handler
  deletes the command message and posts the notice once; when the platform returns the
  posted notice, the handler sleeps 20 seconds and deletes that notice, and the run is
  exactly these four steps; when posting raises, the run ends with the exception.  Nothing
  is sent in either case.
\<close>

theorem unknown_code_rejected:
  assumes "reaches_code_check c cmd m"
    and "get_user_id_from_code c (command_part m 1) = None"
  shows "universal_message_handler c cmd p m =
           (case reply_text p InvalidCodeNotice of
              None \<Rightarrow> (Raised, [delete_trigger p m, ReplyText InvalidCodeNotice None])
            | Some w \<Rightarrow>
                (InvalidCode,
                 [delete_trigger p m, ReplyText InvalidCodeNotice (Some w), Sleep 20,
                  DeleteMessages (chat_id m) w (delete_messages p (chat_id m) w)]))
       \<and> filter is_send (snd (universal_message_handler c cmd p m)) = []
       \<and> length (filter is_reply (snd (universal_message_handler c cmd p m))) = 1"
  using handler_at_code_check [OF assms(1), of p]
    authorize_invalid_code [of c "command_part m 1" p m "command_part m 2" "command_part m 3"]
    assms(2) reject_with_notice_counts [of p m InvalidCodeNotice InvalidCode]
  by (simp add: reject_with_notice_cases)

text \<open>The command \<open>/s NOPE @alice 3\<close> in the authorized chat 100.\<close>

theorem unknown_code_rejected_witness:
  "universal_message_handler example_config ''/s'' example_platform
      (example_message ''/s NOPE @alice 3'' 100 (Some 42))
     = (InvalidCode,
        [DeleteMessages 100 7 MessageDeleteForbidden, ReplyText InvalidCodeNotice (Some 900),
         Sleep 20, DeleteMessages 100 900 Deleted])"
proof -
  let ?m = "example_message ''/s NOPE @alice 3'' 100 (Some 42)"
  have 1: "reaches_code_check example_config ''/s'' ?m" by (simp add: text_defs example_defs)
  have 2: "get_user_id_from_code example_config (command_part ?m 1) = None"
    by (simp add: text_defs example_defs)
  from unknown_code_rejected [OF 1 2, of example_platform]
  show ?thesis by (simp add: delete_trigger_def example_defs)
qed

section \<open>C1: a sender that is not the account of the code\<close>

text \<open>
  As stated, C1 fails: the command \<open>/s ABC123 @alice 3\<close> of sender 41 carries a code bound to
  account 42, but in chat 101, which is not authorized, the handler returns at the chat
  check after deleting the command message; no notice is posted and none is deleted.
\<close>

theorem sender_mismatch_counterexample:
  "is_spam_command ''/s'' (example_message ''/s ABC123 @alice 3'' 101 (Some 41))
   \<and> py_split ''/s ABC123 @alice 3'' ! 1 = ''ABC123''
   \<and> get_user_id_from_code example_config ''ABC123'' = Some 42
   \<and> from_user (example_message ''/s ABC123 @alice 3'' 101 (Some 41)) = Some 41
   \<and> universal_message_handler example_config ''/s'' example_platform
        (example_message ''/s ABC123 @alice 3'' 101 (Some 41))
      = (ChatNotAuthorized, [DeleteMessages 101 7 MessageDeleteForbidden])"
  by (simp add: text_defs example_defs universal_message_handler_def gate_def delete_trigger_def)

text \<open>
  C1, amended.  For every message with a known sender whose second part is a code bound to
  an account other than the sender, nothing is sent, in any chat and whether or not the
  account is authorized.  When the message reaches the lookup of the code (a command of
  at least four parts in a chat that is not private and is authorized), the handler deletes
  the command message and posts one notice; when the platform returns the posted notice
  the handler sleeps 20 seconds and deletes it, and when posting raises the run ends with
  the exception.  The notice is that of a sender mismatch, except for a code bound to the
  account 0, which the handler takes for an invalid code.
\<close>

theorem sender_mismatch_rejected:
  assumes "from_user m = Some s"
    and "get_user_id_from_code c (command_part m 1) = Some a" and "s \<noteq> a"
  shows "filter is_send (snd (universal_message_handler c cmd p m)) = []
       \<and> (reaches_code_check c cmd m \<and> a \<noteq> 0 \<longrightarrow>
            universal_message_handler c cmd p m =
              (case reply_text p SenderMismatchNotice of
                 None \<Rightarrow> (Raised, [delete_trigger p m, ReplyText SenderMismatchNotice None])
               | Some w \<Rightarrow>
                   (SenderMismatch,
                    [delete_trigger p m, ReplyText SenderMismatchNotice (Some w), Sleep 20,
                     DeleteMessages (chat_id m) w (delete_messages p (chat_id m) w)])))
       \<and> (reaches_code_check c cmd m \<and> a = 0 \<longrightarrow>
            universal_message_handler c cmd p m =
              (case reply_text p InvalidCodeNotice of
                 None \<Rightarrow> (Raised, [delete_trigger p m, ReplyText InvalidCodeNotice None])
               | Some w \<Rightarrow>
                   (InvalidCode,
                    [delete_trigger p m, ReplyText InvalidCodeNotice (Some w), Sleep 20,
                     DeleteMessages (chat_id m) w (delete_messages p (chat_id m) w)])))"
proof (intro conjI impI)
  show "filter is_send (snd (universal_message_handler c cmd p m)) = []"
  proof (rule ccontr)
    assume "filter is_send (snd (universal_message_handler c cmd p m)) \<noteq> []"
    from handler_sends [OF this] assms show False by auto
  qed
next
  assume "reaches_code_check c cmd m \<and> a \<noteq> 0"
  then show "universal_message_handler c cmd p m =
              (case reply_text p SenderMismatchNotice of
                 None \<Rightarrow> (Raised, [delete_trigger p m, ReplyText SenderMismatchNotice None])
               | Some w \<Rightarrow>
                   (SenderMismatch,
                    [delete_trigger p m, ReplyText SenderMismatchNotice (Some w), Sleep 20,
                     DeleteMessages (chat_id m) w (delete_messages p (chat_id m) w)]))"
    using authorize_sender_mismatch [OF assms(2) _ assms(1,3), of p "command_part m 2" "command_part m 3"]
    by (simp add: handler_at_code_check reject_with_notice_cases)
next
  assume "reaches_code_check c cmd m \<and> a = 0"
  then show "universal_message_handler c cmd p m =
              (case reply_text p InvalidCodeNotice of
                 None \<Rightarrow> (Raised, [delete_trigger p m, ReplyText InvalidCodeNotice None])
               | Some w \<Rightarrow>
                   (InvalidCode,
                    [delete_trigger p m, ReplyText InvalidCodeNotice (Some w), Sleep 20,
                     DeleteMessages (chat_id m) w (delete_messages p (chat_id m) w)]))"
    using authorize_invalid_code [of c "command_part m 1" p m "command_part m 2" "command_part m 3"]
      assms(2)
    by (simp add: handler_at_code_check reject_with_notice_cases)
qed

text \<open>Sender 41 with the code of account 42, with account 42 authorized and not authorized.\<close>

theorem sender_mismatch_rejected_witness:
  "universal_message_handler example_config ''/s'' example_platform
      (example_message ''/s ABC123 @alice 3'' 100 (Some 41))
     = (SenderMismatch,
        [DeleteMessages 100 7 MessageDeleteForbidden, ReplyText SenderMismatchNotice (Some 900),
         Sleep 20, DeleteMessages 100 900 Deleted])
   \<and> universal_message_handler (example_config\<lparr>authorized_users := [1]\<rparr>) ''/s'' example_platform
      (example_message ''/s ABC123 @alice 3'' 100 (Some 41))
     = (SenderMismatch,
        [DeleteMessages 100 7 MessageDeleteForbidden, ReplyText SenderMismatchNotice (Some 900),
         Sleep 20, DeleteMessages 100 900 Deleted])"
proof -
  let ?m = "example_message ''/s ABC123 @alice 3'' 100 (Some 41)"
  let ?c = "example_config\<lparr>authorized_users := [1]\<rparr>"
  have s: "from_user ?m = Some 41" by (simp add: example_defs)
  have n: "(41::int) \<noteq> 42" by simp
  have a: "universal_message_handler example_config ''/s'' example_platform ?m
     = (SenderMismatch,
        [DeleteMessages 100 7 MessageDeleteForbidden, ReplyText SenderMismatchNotice (Some 900),
         Sleep 20, DeleteMessages 100 900 Deleted])"
  proof -
    have 1: "reaches_code_check example_config ''/s'' ?m \<and> (42::int) \<noteq> 0"
      by (simp add: text_defs example_defs)
    have 2: "get_user_id_from_code example_config (command_part ?m 1) = Some 42"
      by (simp add: text_defs example_defs)
    from sender_mismatch_rejected [OF s 2 n, of "''/s''" example_platform] 1
    show ?thesis by (simp add: delete_trigger_def example_defs)
  qed
  have b: "universal_message_handler ?c ''/s'' example_platform ?m
     = (SenderMismatch,
        [DeleteMessages 100 7 MessageDeleteForbidden, ReplyText SenderMismatchNotice (Some 900),
         Sleep 20, DeleteMessages 100 900 Deleted])"
  proof -
    have 1: "reaches_code_check ?c ''/s'' ?m \<and> (42::int) \<noteq> 0"
      by (simp add: text_defs example_defs)
    have 2: "get_user_id_from_code ?c (command_part ?m 1) = Some 42"
      by (simp add: text_defs example_defs)
    from sender_mismatch_rejected [OF s 2 n, of "''/s''" example_platform] 1
    show ?thesis by (simp add: delete_trigger_def example_defs)
  qed
  show ?thesis by (intro conjI a b)
qed

section \<open>C8: the four rejections\<close>

text \<open>
  As stated, C8 fails in the first of its four cases: for a command posted in the channel
  555, which is not authorized, the handler deletes the command message and returns; no
  notice is posted.
\<close>

theorem four_rejections_counterexample:
  "is_spam_command ''/s'' \<lparr>message_text = Some ''/s ABC123 @alice 3'', chat_id = 555, chat_type = CHANNEL,
        message_id = 8, from_user = None\<rparr>
   \<and> \<not> is_chat_authorized example_config 555
   \<and> universal_message_handler example_config ''/s'' example_platform
        \<lparr>message_text = Some ''/s ABC123 @alice 3'', chat_id = 555, chat_type = CHANNEL,
         message_id = 8, from_user = None\<rparr>
      = (ChatNotAuthorized, [DeleteMessages 555 8 Deleted])
   \<and> filter is_reply (snd (universal_message_handler example_config ''/s'' example_platform
        \<lparr>message_text = Some ''/s ABC123 @alice 3'', chat_id = 555, chat_type = CHANNEL,
         message_id = 8, from_user = None\<rparr>)) = []"
  by (simp add: text_defs example_defs universal_message_handler_def gate_def delete_trigger_def)

text \<open>
  C8, amended.  In the chat that is not authorized the handler attempts the deletion of
  the command message and nothing else.  In the three other cases, for a message that
  reaches the lookup of the code (an invalid code, which is a code that is not a key or is
  bound to the account 0; a sender that is not the account of the code; an account that is
  not authorized), the handler deletes the command message and posts one notice; when the
  platform returns the posted notice the handler sleeps 20 seconds and deletes it, and
  when posting raises the run ends with the exception.
\<close>

theorem rejections_cleanup:
  "(is_spam_command cmd m \<and> chat_type m \<noteq> PRIVATE \<and> \<not> is_chat_authorized c (chat_id m) \<longrightarrow>
      universal_message_handler c cmd p m = (ChatNotAuthorized, [delete_trigger p m]))
   \<and> (reaches_code_check c cmd m
        \<and> (get_user_id_from_code c (command_part m 1) = None
           \<or> get_user_id_from_code c (command_part m 1) = Some 0) \<longrightarrow>
      universal_message_handler c cmd p m =
        (case reply_text p InvalidCodeNotice of
           None \<Rightarrow> (Raised, [delete_trigger p m, ReplyText InvalidCodeNotice None])
         | Some w \<Rightarrow>
             (InvalidCode,
              [delete_trigger p m, ReplyText InvalidCodeNotice (Some w), Sleep 20,
               DeleteMessages (chat_id m) w (delete_messages p (chat_id m) w)])))
   \<and> (reaches_code_check c cmd m \<and> get_user_id_from_code c (command_part m 1) = Some a \<and> a \<noteq> 0
        \<and> from_user m = Some s \<and> s \<noteq> a \<longrightarrow>
      universal_message_handler c cmd p m =
        (case reply_text p SenderMismatchNotice of
           None \<Rightarrow> (Raised, [delete_trigger p m, ReplyText SenderMismatchNotice None])
         | Some w \<Rightarrow>
             (SenderMismatch,
              [delete_trigger p m, ReplyText SenderMismatchNotice (Some w), Sleep 20,
               DeleteMessages (chat_id m) w (delete_messages p (chat_id m) w)])))
   \<and> (reaches_code_check c cmd m \<and> get_user_id_from_code c (command_part m 1) = Some a \<and> a \<noteq> 0
        \<and> (from_user m = None \<or> from_user m = Some a) \<and> \<not> is_authorized c a \<longrightarrow>
      universal_message_handler c cmd p m =
        (case reply_text p NotAuthorizedNotice of
           None \<Rightarrow> (Raised, [delete_trigger p m, ReplyText NotAuthorizedNotice None])
         | Some w \<Rightarrow>
             (UserNotAuthorized,
              [delete_trigger p m, ReplyText NotAuthorizedNotice (Some w), Sleep 20,
               DeleteMessages (chat_id m) w (delete_messages p (chat_id m) w)])))"
proof (intro conjI impI)
  assume "is_spam_command cmd m \<and> chat_type m \<noteq> PRIVATE \<and> \<not> is_chat_authorized c (chat_id m)"
  then show "universal_message_handler c cmd p m = (ChatNotAuthorized, [delete_trigger p m])"
    by (simp add: handler_chat_not_authorized)
next
  assume "reaches_code_check c cmd m
        \<and> (get_user_id_from_code c (command_part m 1) = None
           \<or> get_user_id_from_code c (command_part m 1) = Some 0)"
  then show "universal_message_handler c cmd p m =
        (case reply_text p InvalidCodeNotice of
           None \<Rightarrow> (Raised, [delete_trigger p m, ReplyText InvalidCodeNotice None])
         | Some w \<Rightarrow>
             (InvalidCode,
              [delete_trigger p m, ReplyText InvalidCodeNotice (Some w), Sleep 20,
               DeleteMessages (chat_id m) w (delete_messages p (chat_id m) w)]))"
    using authorize_invalid_code [of c "command_part m 1" p m "command_part m 2" "command_part m 3"]
    by (simp add: handler_at_code_check reject_with_notice_cases)
next
  assume h: "reaches_code_check c cmd m \<and> get_user_id_from_code c (command_part m 1) = Some a \<and> a \<noteq> 0
        \<and> from_user m = Some s \<and> s \<noteq> a"
  then show "universal_message_handler c cmd p m =
        (case reply_text p SenderMismatchNotice of
           None \<Rightarrow> (Raised, [delete_trigger p m, ReplyText SenderMismatchNotice None])
         | Some w \<Rightarrow>
             (SenderMismatch,
              [delete_trigger p m, ReplyText SenderMismatchNotice (Some w), Sleep 20,
               DeleteMessages (chat_id m) w (delete_messages p (chat_id m) w)]))"
    using authorize_sender_mismatch [of c "command_part m 1" a m s p "command_part m 2" "command_part m 3"]
    by (simp add: handler_at_code_check reject_with_notice_cases)
next
  assume h: "reaches_code_check c cmd m \<and> get_user_id_from_code c (command_part m 1) = Some a \<and> a \<noteq> 0
        \<and> (from_user m = None \<or> from_user m = Some a) \<and> \<not> is_authorized c a"
  then show "universal_message_handler c cmd p m =
        (case reply_text p NotAuthorizedNotice of
           None \<Rightarrow> (Raised, [delete_trigger p m, ReplyText NotAuthorizedNotice None])
         | Some w \<Rightarrow>
             (UserNotAuthorized,
              [delete_trigger p m, ReplyText NotAuthorizedNotice (Some w), Sleep 20,
               DeleteMessages (chat_id m) w (delete_messages p (chat_id m) w)]))"
    using authorize_user_not_authorized [of c "command_part m 1" a m p "command_part m 2" "command_part m 3"]
    by (simp add: handler_at_code_check reject_with_notice_cases)
qed

text \<open>One run for each of the four cases.\<close>

theorem rejections_cleanup_witness:
  "universal_message_handler example_config ''/s'' example_platform
      (example_message ''/s ABC123 @alice 3'' 777 None)
     = (ChatNotAuthorized, [DeleteMessages 777 7 MessageDeleteForbidden])
   \<and> universal_message_handler example_config ''/s'' example_platform
      (example_message ''/s WRONG @alice 3'' 100 None)
     = (InvalidCode,
        [DeleteMessages 100 7 MessageDeleteForbidden, ReplyText InvalidCodeNotice (Some 900),
         Sleep 20, DeleteMessages 100 900 Deleted])
   \<and> universal_message_handler example_config ''/s'' example_platform
      (example_message ''/s ABC123 @alice 3'' 100 (Some 1))
     = (SenderMismatch,
        [DeleteMessages 100 7 MessageDeleteForbidden, ReplyText SenderMismatchNotice (Some 900),
         Sleep 20, DeleteMessages 100 900 Deleted])
   \<and> universal_message_handler (example_config\<lparr>authorized_users := [1]\<rparr>) ''/s'' example_platform
      (example_message ''/s ABC123 @alice 3'' 100 (Some 42))
     = (UserNotAuthorized,
        [DeleteMessages 100 7 MessageDeleteForbidden, ReplyText NotAuthorizedNotice (Some 900),
         Sleep 20, DeleteMessages 100 900 Deleted])"
proof -
  let ?m1 = "example_message ''/s ABC123 @alice 3'' 777 None"
  let ?m2 = "example_message ''/s WRONG @alice 3'' 100 None"
  let ?m3 = "example_message ''/s ABC123 @alice 3'' 100 (Some 1)"
  let ?m4 = "example_message ''/s ABC123 @alice 3'' 100 (Some 42)"
  let ?c4 = "example_config\<lparr>authorized_users := [1]\<rparr>"
  have h1: "is_spam_command ''/s'' ?m1 \<and> chat_type ?m1 \<noteq> PRIVATE
      \<and> \<not> is_chat_authorized example_config (chat_id ?m1)"
    by (simp add: text_defs example_defs)
  have h2: "reaches_code_check example_config ''/s'' ?m2
        \<and> (get_user_id_from_code example_config (command_part ?m2 1) = None
           \<or> get_user_id_from_code example_config (command_part ?m2 1) = Some 0)"
    by (simp add: text_defs example_defs)
  have h3: "reaches_code_check example_config ''/s'' ?m3
        \<and> get_user_id_from_code example_config (command_part ?m3 1) = Some 42 \<and> (42::int) \<noteq> 0
        \<and> from_user ?m3 = Some 1 \<and> (1::int) \<noteq> 42"
    by (simp add: text_defs example_defs)
  have h4: "reaches_code_check ?c4 ''/s'' ?m4
        \<and> get_user_id_from_code ?c4 (command_part ?m4 1) = Some 42 \<and> (42::int) \<noteq> 0
        \<and> (from_user ?m4 = None \<or> from_user ?m4 = Some 42) \<and> \<not> is_authorized ?c4 42"
    by (simp add: text_defs example_defs)
  have a: "universal_message_handler example_config ''/s'' example_platform ?m1
     = (ChatNotAuthorized, [DeleteMessages 777 7 MessageDeleteForbidden])"
    using rejections_cleanup [of "''/s''" ?m1 example_config example_platform 42 1] h1
    by (simp add: delete_trigger_def example_defs)
  have b: "universal_message_handler example_config ''/s'' example_platform ?m2
     = (InvalidCode,
        [DeleteMessages 100 7 MessageDeleteForbidden, ReplyText InvalidCodeNotice (Some 900),
         Sleep 20, DeleteMessages 100 900 Deleted])"
    using rejections_cleanup [of "''/s''" ?m2 example_config example_platform 42 1] h2
    by (simp add: delete_trigger_def example_defs)
  have c: "universal_message_handler example_config ''/s'' example_platform ?m3
     = (SenderMismatch,
        [DeleteMessages 100 7 MessageDeleteForbidden, ReplyText SenderMismatchNotice (Some 900),
         Sleep 20, DeleteMessages 100 900 Deleted])"
    using rejections_cleanup [of "''/s''" ?m3 example_config example_platform 42 1] h3
    by (simp add: delete_trigger_def example_defs)
  have d: "universal_message_handler ?c4 ''/s'' example_platform ?m4
     = (UserNotAuthorized,
        [DeleteMessages 100 7 MessageDeleteForbidden, ReplyText NotAuthorizedNotice (Some 900),
         Sleep 20, DeleteMessages 100 900 Deleted])"
    using rejections_cleanup [of "''/s''" ?m4 ?c4 example_platform 42 1] h4
    by (simp add: delete_trigger_def example_defs)
  show ?thesis by (intro conjI a b c d)
qed

section \<open>A command that is accepted\<close>

text \<open>
  The command \<open>/s ABC123 @alice 3\<close> of account 42 in the authorized chat 100, with two
  messages, the bot an administrator, and the second send answered by a flood wait of 30
  seconds: the command message is deleted, three sends are attempted, two succeed.
\<close>

lemma accepted_command_example:
  "fst (universal_message_handler example_config ''/s''
          (example_platform\<lparr>str_format := (\<lambda>t mention. Some t)\<rparr>)
          (example_message ''/s ABC123 @alice 3'' 100 (Some 42))) = Completed 2
   \<and> snd (universal_message_handler example_config ''/s''
          (example_platform\<lparr>str_format := (\<lambda>t mention. Some t)\<rparr>)
          (example_message ''/s ABC123 @alice 3'' 100 (Some 42)))
     = [DeleteMessages 100 7 MessageDeleteForbidden,
        SendMessage 100 ''Yo {mention}'' Sent, Pause,
        SendMessage 100 ''Hi {mention}!'' (FloodWait 30), Sleep 30,
        SendMessage 100 ''Hi {mention}!'' Sent, Pause]"
  by (simp add: text_defs example_defs universal_message_handler_def gate_def authorize_def
      dispatch_def resolve_user_id_def py_isdigit_def py_int_def is_decimal_def
      build_message_pool_def delete_trigger_def upt_rec numeral_3_eq_3)

end
